theory Spec2Isabelle
  imports Complex_Main
begin

section \<open>Overview\<close>

text \<open>
  A model of \<^verbatim>\<open>preprocess\<close>, the one function of the package, in its two variants:
  \<^verbatim>\<open>DNAm/python/preprocess.py\<close>, which takes the bead summary and the two manifests as
  arguments, and \<^verbatim>\<open>CH3/python/preprocess.py\<close>, which reads them from file. The line numbers
  are those of the DNAm variant unless the CH3 variant is named. The function is one
  sequence of stages on pandas tables: intensity extraction, control beads and detection
  thresholds, censoring, dye-bias correction, methylation ratios, the summary table, and
  the \<^verbatim>\<open>return\<close> statements. Each stage is a function here, from the tables it reads to the
  tables it leaves behind; an exception is a value \<^verbatim>\<open>Inl e\<close>. The stages of the DNAm
  variant up to the re-indexing of the probe manifest (line 227) are also composed into
  one function, \<open>preprocess_DNAm_to_reindex\<close>. The sample identifiers come
  from \<^verbatim>\<open>list_idat\<close>, which is not part of the sources, and are a parameter. Of the
  summary table the entry \<^verbatim>\<open>missing_chrY\<close> is modelled; the SNP angles are not.

  Two readings are fixed here. The docstring of the DNAm variant (lines 36--80) is not
  indented under its \<^verbatim>\<open>def\<close>; the statements after it are read as the body of
  \<^verbatim>\<open>preprocess\<close>, as they are in the CH3 variant. An assignment written
  \<^verbatim>\<open>frame[column].loc[rows] = values\<close> is read as writing to \<^verbatim>\<open>frame\<close>, which is what pandas
  does without copy-on-write and what the code relies on to fill its matrices.
\<close>

section \<open>Values: floating-point cells with missing data\<close>

text \<open>
  Every cell of the pandas tables of \<^verbatim>\<open>preprocess\<close> is a double. A missing value is
  \<^verbatim>\<open>np.nan\<close>; dividing by zero gives an infinity or, for \<^verbatim>\<open>0/0\<close>, \<^verbatim>\<open>nan\<close> (numpy warns,
  it does not raise). Finite doubles are idealised as reals: rounding, overflow and the
  sign of zero are not modelled.
\<close>

datatype fl = NaN | NInf | Fin real | PInf

fun isnull :: "fl \<Rightarrow> bool" where
  "isnull NaN = True"
| "isnull _ = False"

fun fl_neg :: "fl \<Rightarrow> fl" where
  "fl_neg NaN = NaN"
| "fl_neg NInf = PInf"
| "fl_neg (Fin x) = Fin (- x)"
| "fl_neg PInf = NInf"

fun fl_add :: "fl \<Rightarrow> fl \<Rightarrow> fl" where
  "fl_add NaN b = NaN"
| "fl_add a NaN = NaN"
| "fl_add (Fin x) (Fin y) = Fin (x + y)"
| "fl_add (Fin x) b = b"
| "fl_add a (Fin y) = a"
| "fl_add PInf PInf = PInf"
| "fl_add NInf NInf = NInf"
| "fl_add PInf NInf = NaN"
| "fl_add NInf PInf = NaN"

definition fl_sub :: "fl \<Rightarrow> fl \<Rightarrow> fl" where
  "fl_sub a b = fl_add a (fl_neg b)"

text \<open>The sign of an infinite product or quotient; a zero factor counts as positive
  in a quotient and is excluded in a product.\<close>

definition inf_of_sign :: "bool \<Rightarrow> fl" where
  "inf_of_sign pos = (if pos then PInf else NInf)"

fun fl_mul :: "fl \<Rightarrow> fl \<Rightarrow> fl" where
  "fl_mul NaN b = NaN"
| "fl_mul a NaN = NaN"
| "fl_mul (Fin x) (Fin y) = Fin (x * y)"
| "fl_mul (Fin x) PInf = (if x = 0 then NaN else inf_of_sign (0 < x))"
| "fl_mul (Fin x) NInf = (if x = 0 then NaN else inf_of_sign (x < 0))"
| "fl_mul PInf (Fin y) = (if y = 0 then NaN else inf_of_sign (0 < y))"
| "fl_mul NInf (Fin y) = (if y = 0 then NaN else inf_of_sign (y < 0))"
| "fl_mul PInf PInf = PInf"
| "fl_mul NInf NInf = PInf"
| "fl_mul PInf NInf = NInf"
| "fl_mul NInf PInf = NInf"

fun fl_div :: "fl \<Rightarrow> fl \<Rightarrow> fl" where
  "fl_div NaN b = NaN"
| "fl_div a NaN = NaN"
| "fl_div (Fin x) (Fin y) =
     (if y = 0 then (if x = 0 then NaN else inf_of_sign (0 < x)) else Fin (x / y))"
| "fl_div (Fin x) b = Fin 0"
| "fl_div PInf (Fin y) = inf_of_sign (0 \<le> y)"
| "fl_div NInf (Fin y) = inf_of_sign (y < 0)"
| "fl_div a b = NaN"

fun fl_sqrt :: "fl \<Rightarrow> fl" where
  "fl_sqrt (Fin x) = (if x < 0 then NaN else Fin (sqrt x))"
| "fl_sqrt PInf = PInf"
| "fl_sqrt a = NaN"

text \<open>\<^verbatim>\<open>Series.gt\<close>: a comparison with \<^verbatim>\<open>nan\<close> on either side is false.\<close>

fun fl_gt :: "fl \<Rightarrow> fl \<Rightarrow> bool" where
  "fl_gt NaN b = False"
| "fl_gt a NaN = False"
| "fl_gt (Fin x) (Fin y) = (y < x)"
| "fl_gt PInf PInf = False"
| "fl_gt PInf b = True"
| "fl_gt a PInf = False"
| "fl_gt NInf b = False"
| "fl_gt a NInf = True"

section \<open>Tables and the pandas operations used\<close>

text \<open>
  Row labels of a pandas index: integers (the default \<^verbatim>\<open>RangeIndex\<close> of a table read
  from CSV, or bead addresses) or strings (probe identifiers).
\<close>

datatype label = IntL int | StrL string

datatype error = KeyError | NameError | ValueError | AssertionError

text \<open>A matrix of doubles with one named column per sample; the rows follow the index
  of the table it was created from.\<close>

type_synonym frame = "(string \<times> fl list) list"

text \<open>\<^verbatim>\<open>pd.DataFrame(np.nan, index=..., columns=...)\<close>: a matrix of \<open>n\<close> rows full of \<^verbatim>\<open>nan\<close>.\<close>

definition nan_frame :: "nat \<Rightarrow> string list \<Rightarrow> frame" where
  "nan_frame n columns = map (\<lambda>column. (column, replicate n NaN)) columns"

text \<open>
  \<^verbatim>\<open>table[condition on a column].index\<close>: the labels of the rows at which the condition
  holds, in the order of the table.
\<close>

definition labels_where :: "('r \<Rightarrow> bool) \<Rightarrow> label list \<Rightarrow> 'r list \<Rightarrow> label list" where
  "labels_where P index rows = map fst (filter (\<lambda>(l, r). P r) (zip index rows))"

text \<open>
  \<^verbatim>\<open>.loc[labels]\<close> on a column: for each requested label, in order, every row carrying
  it; a label that no row carries raises \<^verbatim>\<open>KeyError\<close>.
\<close>

fun loc_rows :: "label list \<Rightarrow> 'a list \<Rightarrow> label list \<Rightarrow> error + 'a list" where
  "loc_rows index xs [] = Inr []"
| "loc_rows index xs (l # ls) =
     (case filter (\<lambda>(k, x). k = l) (zip index xs) of
        [] \<Rightarrow> Inl KeyError
      | hit # hits \<Rightarrow>
          (case loc_rows index xs ls of
             Inl e \<Rightarrow> Inl e
           | Inr rest \<Rightarrow> Inr (map snd (hit # hits) @ rest)))"

text \<open>
  \<^verbatim>\<open>frame[column].loc[labels] = values\<close>: the k-th value goes to the row labelled by the
  k-th label; the other rows keep their value. (The assignment through \<^verbatim>\<open>frame[column]\<close>
  is taken to reach the frame, as it does without copy-on-write.)
\<close>

definition loc_assign :: "label list \<Rightarrow> fl list \<Rightarrow> label list \<Rightarrow> fl list \<Rightarrow> fl list" where
  "loc_assign index col labels vals =
     map (\<lambda>(l, v). case map_of (zip labels vals) l of None \<Rightarrow> v | Some w \<Rightarrow> w) (zip index col)"

text \<open>
  The same assignment with its length check, for labels that may repeat: the labels are
  turned into the positions of the rows that carry them, and the assignment raises
  \<^verbatim>\<open>ValueError\<close> when there are not as many values as positions.
\<close>

fun positions :: "label list \<Rightarrow> label \<Rightarrow> nat \<Rightarrow> nat list" where
  "positions [] l i = []"
| "positions (k # ks) l i = (if k = l then i # positions ks l (Suc i) else positions ks l (Suc i))"

definition loc_setitem :: "label list \<Rightarrow> fl list \<Rightarrow> label list \<Rightarrow> fl list \<Rightarrow> error + fl list" where
  "loc_setitem index col labels vals =
     (let indexer = concat (map (\<lambda>l. positions index l 0) labels)
      in if length indexer = length vals
         then Inr (foldl (\<lambda>c (i, v). c[i := v]) col (zip indexer vals))
         else Inl ValueError)"

text \<open>A missing value read as 0, as the sums of pandas that skip missing values and
  \<^verbatim>\<open>fill_value=0\<close> do.\<close>

definition fillna0 :: "fl \<Rightarrow> fl" where
  "fillna0 a = (if isnull a then Fin 0 else a)"

text \<open>A sum of doubles; \<^verbatim>\<open>DataFrame.sum\<close> and \<^verbatim>\<open>Series.sum\<close> skip missing values.\<close>

definition fl_sum :: "fl list \<Rightarrow> fl" where
  "fl_sum xs = foldl fl_add (Fin 0) xs"

definition nansum :: "fl list \<Rightarrow> fl" where
  "nansum xs = fl_sum (map fillna0 xs)"

text \<open>\<^verbatim>\<open>Series.mean()\<close> and \<^verbatim>\<open>Series.std()\<close> of pandas: missing values are skipped; the
  mean of nothing is \<^verbatim>\<open>nan\<close>; the standard deviation divides by the count minus one and
  is \<^verbatim>\<open>nan\<close> for fewer than two values.\<close>

definition dropna :: "fl list \<Rightarrow> fl list" where
  "dropna xs = filter (\<lambda>v. \<not> isnull v) xs"

definition series_mean :: "fl list \<Rightarrow> fl" where
  "series_mean xs =
     (let ys = dropna xs in
      if ys = [] then NaN else fl_div (fl_sum ys) (Fin (real (length ys))))"

definition series_std :: "fl list \<Rightarrow> fl" where
  "series_std xs =
     (let ys = dropna xs in
      if length ys \<le> 1 then NaN
      else let avg = fl_div (fl_sum ys) (Fin (real (length ys)))
           in fl_sqrt (fl_div (fl_sum (map (\<lambda>y. fl_mul (fl_sub avg y) (fl_sub avg y)) ys))
                              (Fin (real (length ys - 1)))))"

text \<open>\<^verbatim>\<open>np.mean([a, b])\<close> and \<^verbatim>\<open>np.std([a, b])\<close> of numpy on two numbers: nothing is skipped,
  and the standard deviation divides by the count.\<close>

definition np_mean2 :: "fl \<Rightarrow> fl \<Rightarrow> fl" where
  "np_mean2 a b = fl_div (fl_add a b) (Fin 2)"

definition np_std2 :: "fl \<Rightarrow> fl \<Rightarrow> fl" where
  "np_std2 a b =
     (let m = np_mean2 a b
      in fl_sqrt (fl_div (fl_add (fl_mul (fl_sub a m) (fl_sub a m)) (fl_mul (fl_sub b m) (fl_sub b m)))
                         (Fin 2)))"

text \<open>\<^verbatim>\<open>.isnull().mean()\<close>: the share of \<^verbatim>\<open>True\<close>, and \<^verbatim>\<open>nan\<close> for an empty selection.\<close>

definition bool_mean :: "bool list \<Rightarrow> fl" where
  "bool_mean bs =
     (if bs = [] then NaN else Fin (real (length (filter (\<lambda>b. b) bs)) / real (length bs)))"

section \<open>The inputs: manifests and bead summaries\<close>

text \<open>
  The probe manifest as \<^verbatim>\<open>read_manifests\<close> returns it: the index, the column
  \<^verbatim>\<open>'Unnamed: 0'\<close> holding the probe identifiers (present until \<^verbatim>\<open>set_index\<close> drops it),
  and one row per probe with the columns \<^verbatim>\<open>type\<close>, \<^verbatim>\<open>chr\<close>, \<^verbatim>\<open>address.a\<close>, \<^verbatim>\<open>address.b\<close>.
\<close>

record probe =
  ptype :: string
  chr :: string
  address_a :: int
  address_b :: int

record probes_frame =
  p_index :: "label list"
  p_unnamed0 :: "string list option"
  p_rows :: "probe list"

text \<open>The control manifest with its index (set from the column \<^verbatim>\<open>'Unnamed: 0'\<close> by
  \<^verbatim>\<open>read_manifests\<close>), one row per control bead with the columns \<^verbatim>\<open>type\<close> and
  \<^verbatim>\<open>description\<close>.\<close>

record control =
  ctype :: string
  description :: string

type_synonym controls_frame = "(label \<times> control) list"

text \<open>
  One row of a sample's bead summary, with the column names \<^verbatim>\<open>load_data\<close> assigns. The
  first column, named \<^verbatim>\<open>sample_id\<close>, holds the bead address. \<^verbatim>\<open>load_data\<close> leaves the
  default index on the table, so the row labels are the row numbers.
\<close>

record bead =
  sample_id :: int
  grn_n :: int
  grn_mean :: fl
  grn_sd :: fl
  red_n :: int
  red_mean :: fl
  red_sd :: fl

type_synonym beads = "(label \<times> bead) list"

definition load_data :: "bead list \<Rightarrow> beads" where
  "load_data rows = zip (map (\<lambda>i. IntL (int i)) [0..<length rows]) rows"

text \<open>\<^verbatim>\<open>data.loc[labels, column]\<close>: the rows with these labels, \<^verbatim>\<open>KeyError\<close> when a label is
  not in the index (the row labels of a bead summary are unique).\<close>

fun data_loc :: "beads \<Rightarrow> label list \<Rightarrow> error + bead list" where
  "data_loc data [] = Inr []"
| "data_loc data (l # ls) =
     (case map_of data l of
        None \<Rightarrow> Inl KeyError
      | Some b \<Rightarrow> (case data_loc data ls of Inl e \<Rightarrow> Inl e | Inr bs \<Rightarrow> Inr (b # bs)))"

section \<open>Intensity extraction\<close>

text \<open>
  The label lists of DNAm lines 106--114 (CH3 130--138). Each \<^verbatim>\<open>ad_*\<close> is written as
  \<^verbatim>\<open>(probes['address.x'].loc[probes['type'] == t]).index\<close>: the \<^verbatim>\<open>.index\<close> of the selected
  part of an address column, that is the row labels of the probes of type \<^verbatim>\<open>t\<close>; the
  addresses themselves are not read. \<^verbatim>\<open>ad_a_red\<close> selects from \<^verbatim>\<open>address.b\<close> like
  \<^verbatim>\<open>ad_b_red\<close>.
\<close>

definition inf1grn :: "probes_frame \<Rightarrow> label list" where
  "inf1grn pf = labels_where (\<lambda>p. ptype p = ''I-Grn'') (p_index pf) (p_rows pf)"

definition inf1red :: "probes_frame \<Rightarrow> label list" where
  "inf1red pf = labels_where (\<lambda>p. ptype p = ''I-Red'') (p_index pf) (p_rows pf)"

definition inf2 :: "probes_frame \<Rightarrow> label list" where
  "inf2 pf = labels_where (\<lambda>p. ptype p = ''II'') (p_index pf) (p_rows pf)"

definition ad_a_grn :: "probes_frame \<Rightarrow> label list" where
  "ad_a_grn pf = map fst (filter (\<lambda>(l, p, address). ptype p = ''I-Grn'')
                    (zip (p_index pf) (zip (p_rows pf) (map address_a (p_rows pf)))))"

definition ad_b_grn :: "probes_frame \<Rightarrow> label list" where
  "ad_b_grn pf = map fst (filter (\<lambda>(l, p, address). ptype p = ''I-Grn'')
                    (zip (p_index pf) (zip (p_rows pf) (map address_b (p_rows pf)))))"

definition ad_a_red :: "probes_frame \<Rightarrow> label list" where
  "ad_a_red pf = map fst (filter (\<lambda>(l, p, address). ptype p = ''I-Red'')
                    (zip (p_index pf) (zip (p_rows pf) (map address_b (p_rows pf)))))"

definition ad_b_red :: "probes_frame \<Rightarrow> label list" where
  "ad_b_red pf = map fst (filter (\<lambda>(l, p, address). ptype p = ''I-Red'')
                    (zip (p_index pf) (zip (p_rows pf) (map address_b (p_rows pf)))))"

definition ad_a_inf :: "probes_frame \<Rightarrow> label list" where
  "ad_a_inf pf = map fst (filter (\<lambda>(l, p, address). ptype p = ''II'')
                    (zip (p_index pf) (zip (p_rows pf) (map address_a (p_rows pf)))))"

text \<open>\<^verbatim>\<open>np.where(n >= min_beads, mean, np.nan)\<close> over the selected rows.\<close>

definition where_min_beads :: "(bead \<Rightarrow> int) \<Rightarrow> (bead \<Rightarrow> fl) \<Rightarrow> int \<Rightarrow> bead list \<Rightarrow> fl list" where
  "where_min_beads n_of mean_of min_beads bs =
     map (\<lambda>b. if min_beads \<le> n_of b then mean_of b else NaN) bs"

text \<open>The body of the loop of DNAm lines 122--127 (CH3 146--149) for one sample: its
  column of \<^verbatim>\<open>intensities_A\<close>, created full of \<^verbatim>\<open>nan\<close> (line 95).\<close>

definition intensities_A_column :: "beads \<Rightarrow> int \<Rightarrow> probes_frame \<Rightarrow> error + fl list" where
  "intensities_A_column data min_beads pf =
     (case data_loc data (ad_a_grn pf) of Inl e \<Rightarrow> Inl e | Inr b_grn \<Rightarrow>
      case data_loc data (ad_a_red pf) of Inl e \<Rightarrow> Inl e | Inr b_red \<Rightarrow>
      case data_loc data (ad_a_inf pf) of Inl e \<Rightarrow> Inl e | Inr b_inf \<Rightarrow>
        Inr (loc_assign (p_index pf)
              (loc_assign (p_index pf)
                (loc_assign (p_index pf) (replicate (length (p_index pf)) NaN)
                   (inf1grn pf) (where_min_beads grn_n grn_mean min_beads b_grn))
                (inf1red pf) (where_min_beads red_n red_mean min_beads b_red))
              (inf2 pf) (where_min_beads grn_n grn_mean min_beads b_inf)))"

text \<open>The body of the loop of DNAm lines 130--133 (CH3 152--155): the sample's column of
  \<^verbatim>\<open>intensities_B\<close>. Its last assignment tests \<^verbatim>\<open>red_n\<close> and stores \<^verbatim>\<open>grn_mean\<close>.\<close>

definition intensities_B_column :: "beads \<Rightarrow> int \<Rightarrow> probes_frame \<Rightarrow> error + fl list" where
  "intensities_B_column data min_beads pf =
     (case data_loc data (ad_b_grn pf) of Inl e \<Rightarrow> Inl e | Inr b_grn \<Rightarrow>
      case data_loc data (ad_b_red pf) of Inl e \<Rightarrow> Inl e | Inr b_red \<Rightarrow>
      case data_loc data (ad_a_inf pf) of Inl e \<Rightarrow> Inl e | Inr b_inf \<Rightarrow>
        Inr (loc_assign (p_index pf)
              (loc_assign (p_index pf)
                (loc_assign (p_index pf) (replicate (length (p_index pf)) NaN)
                   (inf1grn pf) (where_min_beads grn_n grn_mean min_beads b_grn))
                (inf1red pf) (where_min_beads red_n red_mean min_beads b_red))
              (inf2 pf) (where_min_beads red_n grn_mean min_beads b_inf)))"




section \<open>Control beads, background and detection thresholds\<close>

text \<open>\<^verbatim>\<open>dataa = data.set_index('sample_id')\<close>: the bead summary keyed by bead address.\<close>

definition set_index_sample_id :: "beads \<Rightarrow> beads" where
  "set_index_sample_id data = map (\<lambda>(l, b). (IntL (sample_id b), b)) data"

text \<open>
  \<^verbatim>\<open>controls_grn[column].loc[con_ind] = np.where(dataa.loc[con_ind, 'grn_n'] > 0,
  dataa.loc[con_ind, 'grn_mean'], np.nan)\<close> and its red counterpart (lines 137--139 and
  146--148); \<^verbatim>\<open>con_ind\<close> is the whole index of the control manifest. \<^verbatim>\<open>dataa.loc[con_ind]\<close>
  raises \<^verbatim>\<open>KeyError\<close> for an address that is not in the summary and returns every row of
  an address that is there more than once; the assignment then has more values than rows
  and raises \<^verbatim>\<open>ValueError\<close>. The column starts full of \<^verbatim>\<open>nan\<close> (lines 98--99).
\<close>

definition controls_column :: "(bead \<Rightarrow> int) \<Rightarrow> (bead \<Rightarrow> fl) \<Rightarrow> beads \<Rightarrow> controls_frame \<Rightarrow> error + fl list" where
  "controls_column n_of mean_of data controls =
     (let dataa = set_index_sample_id data; con_ind = map fst controls
      in case loc_rows (map fst dataa) (map snd dataa) con_ind of
           Inl e \<Rightarrow> Inl e
         | Inr bs \<Rightarrow>
             loc_setitem con_ind (replicate (length con_ind) NaN) con_ind
               (map (\<lambda>b. if 0 < n_of b then mean_of b else NaN) bs))"

text \<open>\<^verbatim>\<open>neg_beads = controls[controls['type'] == "NEGATIVE"].index\<close> and the statistics of
  the column over these beads.\<close>

definition neg_beads :: "controls_frame \<Rightarrow> label list" where
  "neg_beads controls = labels_where (\<lambda>c. ctype c = ''NEGATIVE'') (map fst controls) (map snd controls)"

definition neg_stats :: "controls_frame \<Rightarrow> fl list \<Rightarrow> error + fl \<times> fl" where
  "neg_stats controls col =
     (case loc_rows (map fst controls) col (neg_beads controls) of
        Inl e \<Rightarrow> Inl e
      | Inr vals \<Rightarrow> Inr (series_mean vals, series_std vals))"

text \<open>
  One of the loops of DNAm lines 135--152 (CH3 157--176): it fills the control matrix
  column by column and assigns the column's negative-control mean and standard deviation
  to the same two variables each time. What the loop leaves behind is the matrix and the
  statistics of the last column, or no statistics when there is no column.
\<close>

fun controls_loop ::
  "(bead \<Rightarrow> int) \<Rightarrow> (bead \<Rightarrow> fl) \<Rightarrow> controls_frame \<Rightarrow> (string \<times> beads) list \<Rightarrow> frame \<times> (fl \<times> fl) option
     \<Rightarrow> error + frame \<times> (fl \<times> fl) option" where
  "controls_loop n_of mean_of controls [] st = Inr st"
| "controls_loop n_of mean_of controls ((column, data) # rest) (fr, stats) =
     (case controls_column n_of mean_of data controls of
        Inl e \<Rightarrow> Inl e
      | Inr col \<Rightarrow>
          (case neg_stats controls col of
             Inl e \<Rightarrow> Inl e
           | Inr s \<Rightarrow> controls_loop n_of mean_of controls rest (fr @ [(column, col)], Some s)))"

record background =
  neg_means_grn :: fl
  neg_sds_grn :: fl
  neg_means_red :: fl
  neg_sds_red :: fl

record thresholds =
  threshold_inf1grn :: fl
  threshold_inf1red :: fl
  threshold_inf2 :: fl

text \<open>
  DNAm lines 156--163 (CH3 180--187), with \<^verbatim>\<open>z = norm.ppf(1 - detection)\<close> given: the
  quantile function is scipy's, not the repository's. \<^verbatim>\<open>neg_means_\<close> and \<^verbatim>\<open>neg_sds_\<close> are
  single numbers, so \<^verbatim>\<open>np.sum\<close> of them is the number itself.
\<close>

definition detection_thresholds :: "fl \<Rightarrow> background \<Rightarrow> thresholds" where
  "detection_thresholds z bg =
     (let neg_means = np_mean2 (neg_means_grn bg) (neg_means_red bg);
          neg_sds = np_std2 (neg_sds_grn bg) (neg_sds_red bg)
      in \<lparr>threshold_inf1grn =
            fl_add (fl_mul (Fin 2) (neg_means_grn bg)) (fl_mul (fl_mul z (Fin (sqrt 2))) (neg_sds_grn bg)),
          threshold_inf1red =
            fl_add (fl_mul (Fin 2) (neg_means_red bg)) (fl_mul (fl_mul z (Fin (sqrt 2))) (neg_sds_red bg)),
          threshold_inf2 = fl_add neg_means (fl_mul z (fl_sqrt (fl_mul neg_sds neg_sds)))\<rparr>)"

text \<open>
  DNAm lines 135--163 (CH3 157--187) together, on the sample columns and the tables they
  are paired with (see the extraction loops). With no pair neither loop body runs and
  reading \<^verbatim>\<open>neg_means_grn\<close> raises \<^verbatim>\<open>NameError\<close>. The statistics of a column without
  usable negative controls are \<^verbatim>\<open>nan\<close>; nothing on this path tests for that.
\<close>

definition background_model ::
  "fl \<Rightarrow> controls_frame \<Rightarrow> string list \<Rightarrow> beads list \<Rightarrow> error + frame \<times> frame \<times> background \<times> thresholds" where
  "background_model z controls sample_ids tables =
     (let columns = zip sample_ids tables;
          unfilled = nan_frame (length controls) (drop (length tables) sample_ids)
      in case controls_loop grn_n grn_mean controls columns ([], None) of
           Inl e \<Rightarrow> Inl e
         | Inr (c_grn, s_grn) \<Rightarrow>
             (case controls_loop red_n red_mean controls columns ([], None) of
                Inl e \<Rightarrow> Inl e
              | Inr (c_red, s_red) \<Rightarrow>
                  (case (s_grn, s_red) of
                     (Some (m_grn, sd_grn), Some (m_red, sd_red)) \<Rightarrow>
                       (let bg = \<lparr>neg_means_grn = m_grn, neg_sds_grn = sd_grn,
                                  neg_means_red = m_red, neg_sds_red = sd_red\<rparr>
                        in Inr (c_grn @ unfilled, c_red @ unfilled, bg, detection_thresholds z bg))
                   | _ \<Rightarrow> Inl NameError)))"

section \<open>Censoring\<close>

text \<open>\<^verbatim>\<open>(intensities_A).sum(axis=1)\<close>: for each row the sum over all columns, missing values
  skipped.\<close>

definition row_sums :: "nat \<Rightarrow> frame \<Rightarrow> fl list" where
  "row_sums n fr =
     foldl (\<lambda>acc (column, col). map (\<lambda>(s, v). fl_add s (fillna0 v)) (zip acc col)) (replicate n (Fin 0)) fr"

text \<open>
  \<^verbatim>\<open>series[(series.gt(neg_mean).values) & (totals.gt(threshold).values)]\<close>: the entries of
  the series at which both tests hold.
\<close>

definition mask_select :: "fl list \<Rightarrow> fl \<Rightarrow> fl list \<Rightarrow> fl \<Rightarrow> fl list" where
  "mask_select series neg_mean totals threshold =
     map fst (filter (\<lambda>(v, t). fl_gt v neg_mean \<and> fl_gt t threshold) (zip series totals))"

text \<open>
  The body of the loops of DNAm lines 168--199 (CH3 192--223) for one column. Each of its
  three parts reads a group of the column into a new series,
  \<^verbatim>\<open>intensities_A_grn = intensities_A[column].loc[inf1grn]\<close>, and stores the selection in
  that series, \<^verbatim>\<open>intensities_A_grn[column] = ...\<close>. The three series are local: nothing is
  assigned to the matrix. The Type-II part compares with \<^verbatim>\<open>neg_means_red\<close>.
\<close>

record censor_locals =
  selected_grn :: "fl list"
  selected_red :: "fl list"
  selected_inf2 :: "fl list"

definition censor_body :: "probes_frame \<Rightarrow> background \<Rightarrow> thresholds \<Rightarrow> frame \<Rightarrow> fl list \<Rightarrow> error + censor_locals" where
  "censor_body pf bg th fr col =
     (let I = row_sums (length (p_index pf)) fr in
      case loc_rows (p_index pf) col (inf1grn pf) of Inl e \<Rightarrow> Inl e | Inr v_grn \<Rightarrow>
      case loc_rows (p_index pf) I (inf1grn pf) of Inl e \<Rightarrow> Inl e | Inr I_grn \<Rightarrow>
      case loc_rows (p_index pf) col (inf1red pf) of Inl e \<Rightarrow> Inl e | Inr v_red \<Rightarrow>
      case loc_rows (p_index pf) I (inf1red pf) of Inl e \<Rightarrow> Inl e | Inr I_red \<Rightarrow>
      case loc_rows (p_index pf) col (inf2 pf) of Inl e \<Rightarrow> Inl e | Inr v_inf2 \<Rightarrow>
      case loc_rows (p_index pf) I (inf2 pf) of Inl e \<Rightarrow> Inl e | Inr I_inf2 \<Rightarrow>
        Inr \<lparr>selected_grn = mask_select v_grn (neg_means_grn bg) I_grn (threshold_inf1grn th),
             selected_red = mask_select v_red (neg_means_red bg) I_red (threshold_inf1red th),
             selected_inf2 = mask_select v_inf2 (neg_means_red bg) I_inf2 (threshold_inf2 th)\<rparr>)"

text \<open>The loop over the columns of the matrix; the matrix it leaves behind. The loop
  for \<^verbatim>\<open>intensities_B\<close> is the same text with \<^verbatim>\<open>B\<close> for \<^verbatim>\<open>A\<close>.\<close>

fun censor_loop :: "probes_frame \<Rightarrow> background \<Rightarrow> thresholds \<Rightarrow> frame \<Rightarrow> frame \<Rightarrow> error + frame" where
  "censor_loop pf bg th fr [] = Inr fr"
| "censor_loop pf bg th fr ((column, col) # rest) =
     (case censor_body pf bg th fr col of
        Inl e \<Rightarrow> Inl e
      | Inr locals \<Rightarrow> censor_loop pf bg th fr rest)"

definition censor :: "probes_frame \<Rightarrow> background \<Rightarrow> thresholds \<Rightarrow> frame \<Rightarrow> error + frame" where
  "censor pf bg th fr = censor_loop pf bg th fr fr"

section \<open>Dye-bias correction\<close>

text \<open>
  \<^verbatim>\<open>norm_grn_beads\<close> are the labels of the controls of type \<^verbatim>\<open>NORM_C\<close> or \<^verbatim>\<open>NORM_G\<close>.
  \<^verbatim>\<open>norm_red_beads = controls['description'].isin(match_).index\<close> is the index of a boolean
  column, that is every label of the control manifest, whatever \<^verbatim>\<open>match_\<close> holds.
\<close>

definition norm_grn_beads :: "controls_frame \<Rightarrow> label list" where
  "norm_grn_beads controls =
     labels_where (\<lambda>c. ctype c = ''NORM_C'' \<or> ctype c = ''NORM_G'') (map fst controls) (map snd controls)"

definition norm_red_beads :: "controls_frame \<Rightarrow> label list" where
  "norm_red_beads controls = map fst controls"

text \<open>
  \<^verbatim>\<open>norm_data = pd.concat([grn, red], axis=1)\<close> for one sample: a row per control label with
  the green value (missing when the label is not among \<^verbatim>\<open>norm_grn_beads\<close>) and the red
  value. Both columns carry the sample's name, so \<^verbatim>\<open>norm_data[column1]\<close> and
  \<^verbatim>\<open>norm_data[column2]\<close> are both the whole table and \<^verbatim>\<open>np.mean(..., axis=1)\<close> is the mean of
  each row, missing values skipped.
\<close>

definition norm_data :: "controls_frame \<Rightarrow> fl list \<Rightarrow> fl list \<Rightarrow> (fl \<times> fl) list" where
  "norm_data controls col_grn col_red =
     map (\<lambda>((l, c), g, r). (if l \<in> set (norm_grn_beads controls) then g else NaN, r))
       (zip controls (zip col_grn col_red))"

definition corrections_grn :: "controls_frame \<Rightarrow> fl list \<Rightarrow> fl list \<Rightarrow> fl" where
  "corrections_grn controls col_grn col_red =
     series_mean (map (\<lambda>(g, r). fl_div (series_mean [g, r]) g) (norm_data controls col_grn col_red))"

definition corrections_red :: "controls_frame \<Rightarrow> fl list \<Rightarrow> fl list \<Rightarrow> fl" where
  "corrections_red controls col_grn col_red =
     series_mean (map (\<lambda>(g, r). fl_div (series_mean [g, r]) r) (norm_data controls col_grn col_red))"

text \<open>\<^verbatim>\<open>intensities_A.loc[inf2] = intensities_A.loc[inf2] * corrections_red\<close>: the rows of the
  Type-II probes, in every column of the matrix, times the number.\<close>

definition scale_inf2 :: "probes_frame \<Rightarrow> fl \<Rightarrow> frame \<Rightarrow> frame" where
  "scale_inf2 pf k fr =
     map (\<lambda>(column, col).
            (column, map (\<lambda>(l, v). if l \<in> set (inf2 pf) then fl_mul v k else v) (zip (p_index pf) col)))
       fr"

text \<open>The loop of DNAm lines 208--218 (CH3 232--242) over the columns of the two control
  matrices; both assignments to the intensity matrices are inside the loop body.\<close>

fun dye_bias_loop ::
  "controls_frame \<Rightarrow> probes_frame \<Rightarrow> ((string \<times> fl list) \<times> (string \<times> fl list)) list \<Rightarrow> frame \<times> frame \<Rightarrow> frame \<times> frame" where
  "dye_bias_loop controls pf [] (A, B) = (A, B)"
| "dye_bias_loop controls pf (((column1, col_grn), (column2, col_red)) # rest) (A, B) =
     dye_bias_loop controls pf rest
       (scale_inf2 pf (corrections_red controls col_grn col_red) A,
        scale_inf2 pf (corrections_grn controls col_grn col_red) B)"

definition dye_bias :: "controls_frame \<Rightarrow> probes_frame \<Rightarrow> frame \<Rightarrow> frame \<Rightarrow> frame \<times> frame \<Rightarrow> frame \<times> frame" where
  "dye_bias controls pf c_grn c_red AB = dye_bias_loop controls pf (zip c_grn c_red) AB"

section \<open>The run's effect on the probe manifest\<close>




section \<open>Methylation ratios\<close>

text \<open>
  \<^verbatim>\<open>idx = probes[probes.index.str.contains('rs')].index\<close> (DNAm line 228), read after
  \<^verbatim>\<open>probes.set_index(['Unnamed: 0'])\<close>: the identifiers that contain \<^verbatim>\<open>rs\<close> anywhere.
\<close>

fun contains_rs :: "string \<Rightarrow> bool" where
  "contains_rs [] = False"
| "contains_rs [c] = False"
| "contains_rs (c # d # s) = ((c = CHR ''r'' \<and> d = CHR ''s'') \<or> contains_rs (d # s))"

definition snp_idx :: "string list \<Rightarrow> label list" where
  "snp_idx names = map StrL (filter contains_rs names)"

text \<open>
  \<^verbatim>\<open>intensities = intensities_A.add(intensities_B, fill_value=0)\<close> (DNAm line 229, CH3 line
  255), cell by cell: a cell missing on one side only is taken as 0 before adding; a cell
  missing on both sides stays missing.
\<close>

definition add_fill0 :: "fl \<Rightarrow> fl \<Rightarrow> fl" where
  "add_fill0 a b = (if isnull a \<and> isnull b then NaN else fl_add (fillna0 a) (fillna0 b))"

text \<open>The same on two matrices with the same rows and columns.\<close>

definition intensities_add :: "frame \<Rightarrow> frame \<Rightarrow> frame" where
  "intensities_add A B =
     map (\<lambda>((column, a), (column', b)). (column, map (\<lambda>(x, y). add_fill0 x y) (zip a b))) (zip A B)"

text \<open>One cell of \<^verbatim>\<open>dnam = intensities_B.loc[...] / intensities\<close> (DNAm line 231, CH3 line
  257).\<close>

definition dnam_cell :: "fl \<Rightarrow> fl \<Rightarrow> fl" where
  "dnam_cell a b = fl_div b (add_fill0 a b)"

text \<open>
  A column of \<^verbatim>\<open>dnam\<close>. The numerator keeps the rows whose label is in
  \<^verbatim>\<open>intensities_B.index.difference(idx)\<close>; the division aligns both tables on the index of
  \<^verbatim>\<open>intensities\<close>, so a row absent from the numerator is a row of missing values. The
  index of \<^verbatim>\<open>intensities_B\<close> is the index the manifest had when the matrix was created
  (line 96), before \<^verbatim>\<open>set_index\<close>.
\<close>

definition dnam_column :: "label list \<Rightarrow> label list \<Rightarrow> fl list \<Rightarrow> fl list \<Rightarrow> fl list" where
  "dnam_column index idx a_col b_col =
     map (\<lambda>(l, a, b). if l \<in> set idx then NaN else dnam_cell a b) (zip index (zip a_col b_col))"

text \<open>A value that is a finite number or missing, as every bead mean of a scan is.\<close>

definition finite_or_missing :: "fl \<Rightarrow> bool" where
  "finite_or_missing a = (case a of NaN \<Rightarrow> True | Fin x \<Rightarrow> True | NInf \<Rightarrow> False | PInf \<Rightarrow> False)"

section \<open>Missingness on chromosome Y\<close>

text \<open>
  \<^verbatim>\<open>dnam.set_index(probes.index, inplace=True)\<close>, \<^verbatim>\<open>idy = probes[probes['chr'] == 'Y'].index\<close>
  and \<^verbatim>\<open>dnam.loc[idy].isnull().mean(axis=0)\<close> (DNAm lines 329--333) or
  \<^verbatim>\<open>dnam[column].loc[idy].isna().mean()\<close> (CH3 lines 379--385), for the column of one sample.
  The manifest is the re-indexed one. Relabelling \<^verbatim>\<open>dnam\<close> raises \<^verbatim>\<open>ValueError\<close> when the
  lengths differ.
\<close>

definition missing_chrY :: "probes_frame \<Rightarrow> fl list \<Rightarrow> error + fl" where
  "missing_chrY pf col =
     (if length col = length (p_index pf)
      then (case loc_rows (p_index pf) col (labels_where (\<lambda>p. chr p = ''Y'') (p_index pf) (p_rows pf)) of
              Inl e \<Rightarrow> Inl e
            | Inr ys \<Rightarrow> Inr (bool_mean (map isnull ys)))
      else Inl ValueError)"

section \<open>What \<^verbatim>\<open>preprocess\<close> returns\<close>

text \<open>
  The value of \<^verbatim>\<open>idx\<close> when the \<^verbatim>\<open>return\<close> statements of the CH3 variant are reached. The
  summary loop (lines 281--385) runs once per sample and its last assignment to \<^verbatim>\<open>idx\<close> is
  \<^verbatim>\<open>probes[probes['chr'] == 'X'].index\<close> (line 378); with no sample the loop body never runs
  and \<^verbatim>\<open>idx\<close> still holds the identifiers containing \<^verbatim>\<open>rs\<close> (line 267). The manifest is
  indexed by the probe identifiers at that point.
\<close>

definition idx_at_return :: "probes_frame \<Rightarrow> string list \<Rightarrow> label list" where
  "idx_at_return pf sample_ids =
     (if sample_ids = [] then filter (\<lambda>l. case l of StrL s \<Rightarrow> contains_rs s | IntL n \<Rightarrow> False) (p_index pf)
      else labels_where (\<lambda>p. chr p = ''X'') (p_index pf) (p_rows pf))"

text \<open>
  \<^verbatim>\<open>intensities[idx]\<close>: indexing a DataFrame with a list of labels selects columns, and
  raises \<^verbatim>\<open>KeyError\<close> when a label is not a column.
\<close>

fun getitem_columns :: "frame \<Rightarrow> label list \<Rightarrow> error + frame" where
  "getitem_columns fr [] = Inr []"
| "getitem_columns fr (IntL n # ls) = Inl KeyError"
| "getitem_columns fr (StrL c # ls) =
     (case map_of fr c of
        None \<Rightarrow> Inl KeyError
      | Some col \<Rightarrow> (case getitem_columns fr ls of Inl e \<Rightarrow> Inl e | Inr sel \<Rightarrow> Inr ((c, col) # sel)))"

text \<open>\<^verbatim>\<open>snps_r = np.sqrt(np.sum(intensities[idx]**2))\<close> (CH3 line 397): one value per
  selected column, the root of the column's sum of squares.\<close>

definition snps_r :: "frame \<Rightarrow> label list \<Rightarrow> error + (string \<times> fl) list" where
  "snps_r intensities idx =
     (case getitem_columns intensities idx of
        Inl e \<Rightarrow> Inl e
      | Inr sel \<Rightarrow> Inr (map (\<lambda>(c, col). (c, fl_sqrt (nansum (map (\<lambda>v. fl_mul v v) col)))) sel))"

text \<open>The three shapes of the returned value, and the local variables the \<^verbatim>\<open>return\<close>
  statements read.\<close>

datatype returned =
    Seven frame frame frame frame frame frame frame
  | Radius "(string \<times> fl) list"
  | Triple frame frame frame

record results =
  r_samples :: frame
  r_cpgs :: frame
  r_snps :: frame
  r_intensities_A :: frame
  r_intensities_B :: frame
  r_controls_red :: frame
  r_controls_grn :: frame
  r_intensities :: frame
  r_idx :: "label list"

text \<open>The \<^verbatim>\<open>if\<close>/\<^verbatim>\<open>elif\<close>/\<^verbatim>\<open>else\<close> that ends the CH3 variant (lines 392--402).\<close>

definition preprocess_return_CH3 :: "bool \<Rightarrow> bool \<Rightarrow> results \<Rightarrow> error + returned" where
  "preprocess_return_CH3 return_intensities return_snps_r r =
     (if return_intensities
      then Inr (Seven (r_samples r) (r_cpgs r) (r_snps r) (r_intensities_A r) (r_intensities_B r)
                  (r_controls_red r) (r_controls_grn r))
      else if return_snps_r
      then (case snps_r (r_intensities r) (r_idx r) of Inl e \<Rightarrow> Inl e | Inr v \<Rightarrow> Inr (Radius v))
      else Inr (Triple (r_samples r) (r_cpgs r) (r_snps r)))"

text \<open>
  The same statement in the DNAm variant (lines 340--347). Its second test is
  \<^verbatim>\<open>elif return_snps == True\<close>; \<^verbatim>\<open>return_snps\<close> is neither a parameter nor a global of the
  module, so evaluating the test raises \<^verbatim>\<open>NameError\<close> and neither branch below it is ever
  taken.
\<close>

definition preprocess_return_DNAm :: "bool \<Rightarrow> bool \<Rightarrow> results \<Rightarrow> error + returned" where
  "preprocess_return_DNAm return_intensities return_snps_r r =
     (if return_intensities
      then Inr (Seven (r_samples r) (r_cpgs r) (r_snps r) (r_intensities_A r) (r_intensities_B r)
                  (r_controls_red r) (r_controls_grn r))
      else Inl NameError)"

section \<open>Properties of the table operations\<close>



lemma filter_label_unique:
  assumes "distinct index" and "length index = length xs" and "l \<in> set index"
  shows "filter (\<lambda>(k, x). k = l) (zip index xs) = [(l, the (map_of (zip index xs) l))]"
  using assms(2,1,3)
proof (induction index xs rule: list_induct2)
  case Nil
  then show ?case by simp
next
  case (Cons i index x xs)
  have "l \<notin> set index \<Longrightarrow> filter (\<lambda>(k, x). k = l) (zip index xs) = []"
    by (auto simp add: filter_empty_conv dest: set_zip_leftD)
  with Cons show ?case by auto
qed

lemma loc_rows_distinct:
  assumes "distinct index" and "length index = length xs" and "set ls \<subseteq> set index"
  shows "loc_rows index xs ls = Inr (map (\<lambda>l. the (map_of (zip index xs) l)) ls)"
  using assms(3)
proof (induction ls)
  case Nil
  then show ?case by simp
next
  case (Cons l ls)
  then show ?case
    using filter_label_unique [OF assms(1,2), of l] by simp
qed

lemma lookup_labels_where:
  assumes "length index = length rows" and "length rows = length xs" and "distinct index"
  shows "map (\<lambda>l. the (map_of (zip index xs) l)) (labels_where P index rows)
           = map snd (filter (\<lambda>(r, x). P r) (zip rows xs))"
  using assms
proof (induction index rows xs rule: list_induct3)
  case Nil
  then show ?case by (simp add: labels_where_def)
next
  case (Cons i index r rows x xs)
  have notin: "i \<notin> set (labels_where P index rows)"
    using Cons.prems by (auto simp add: labels_where_def dest: set_zip_leftD)
  have "map (\<lambda>l. the (map_of (zip (i # index) (x # xs)) l)) (labels_where P index rows)
          = map (\<lambda>l. the (map_of (zip index xs) l)) (labels_where P index rows)"
    using notin by (intro map_cong) auto
  with Cons show ?case by (simp add: labels_where_def)
qed

lemma labels_where_subset: "set (labels_where P index rows) \<subseteq> set index"
  by (auto simp add: labels_where_def dest: set_zip_leftD)

lemma length_filter_zip_fst:
  "length rows = length xs \<Longrightarrow>
     length (filter (\<lambda>(r, x). P r) (zip rows xs)) = length (filter P rows)"
  by (induction rows xs rule: list_induct2) auto

lemma count_isnull_selected:
  "length (filter (\<lambda>b. b) (map isnull (map snd (filter (\<lambda>(r, x). P r) (zip rows xs)))))
     = length (filter (\<lambda>(r, x). P r \<and> isnull x) (zip rows xs))"
  by (simp add: filter_map comp_def case_prod_unfold conj_commute)

lemma data_loc_length: "data_loc data ls = Inr bs \<Longrightarrow> length bs = length ls"
  by (induction ls arbitrary: bs) (auto split: option.splits sum.splits)





section \<open>Properties of the intensity extraction\<close>






text \<open>
  C4 on the code. A Type-II probe with \<^verbatim>\<open>address.a = 31\<close> in manifest row 0 and an I-Grn
  probe with addresses 41 and 42 in row 1; the bead summary lists the beads 41, 42, 31 in
  its rows 0, 1, 2. The extraction reads the summary rows 0 and 1 (the probes' row
  labels): \<open>A\<close> is 100 and 110 where the addresses give 120 and 100, \<open>B\<close> is 100 and 110
  where the addresses give 220 and 110. Even when row label and address coincide (last
  conjunct) the Type-II \<open>B\<close> value is the green mean 100, not the red mean 200.
\<close>

theorem extraction_reads_row_labels:
  "intensities_A_column
      [(IntL 0, \<lparr>sample_id = 41, grn_n = 5, grn_mean = Fin 100, grn_sd = Fin 1, red_n = 5, red_mean = Fin 200, red_sd = Fin 1\<rparr>),
       (IntL 1, \<lparr>sample_id = 42, grn_n = 5, grn_mean = Fin 110, grn_sd = Fin 1, red_n = 5, red_mean = Fin 210, red_sd = Fin 1\<rparr>),
       (IntL 2, \<lparr>sample_id = 31, grn_n = 5, grn_mean = Fin 120, grn_sd = Fin 1, red_n = 5, red_mean = Fin 220, red_sd = Fin 1\<rparr>)]
      3
      \<lparr>p_index = [IntL 0, IntL 1], p_unnamed0 = Some [''cg01'', ''cg02''],
       p_rows = [\<lparr>ptype = ''II'', chr = ''1'', address_a = 31, address_b = 0\<rparr>,
                 \<lparr>ptype = ''I-Grn'', chr = ''2'', address_a = 41, address_b = 42\<rparr>]\<rparr>
     = Inr [Fin 100, Fin 110]
   \<and> intensities_B_column
      [(IntL 0, \<lparr>sample_id = 41, grn_n = 5, grn_mean = Fin 100, grn_sd = Fin 1, red_n = 5, red_mean = Fin 200, red_sd = Fin 1\<rparr>),
       (IntL 1, \<lparr>sample_id = 42, grn_n = 5, grn_mean = Fin 110, grn_sd = Fin 1, red_n = 5, red_mean = Fin 210, red_sd = Fin 1\<rparr>),
       (IntL 2, \<lparr>sample_id = 31, grn_n = 5, grn_mean = Fin 120, grn_sd = Fin 1, red_n = 5, red_mean = Fin 220, red_sd = Fin 1\<rparr>)]
      3
      \<lparr>p_index = [IntL 0, IntL 1], p_unnamed0 = Some [''cg01'', ''cg02''],
       p_rows = [\<lparr>ptype = ''II'', chr = ''1'', address_a = 31, address_b = 0\<rparr>,
                 \<lparr>ptype = ''I-Grn'', chr = ''2'', address_a = 41, address_b = 42\<rparr>]\<rparr>
     = Inr [Fin 100, Fin 110]
   \<and> intensities_B_column
      [(IntL 0, \<lparr>sample_id = 0, grn_n = 5, grn_mean = Fin 100, grn_sd = Fin 1, red_n = 5, red_mean = Fin 200, red_sd = Fin 1\<rparr>)]
      3
      \<lparr>p_index = [IntL 0], p_unnamed0 = Some [''cg01''],
       p_rows = [\<lparr>ptype = ''II'', chr = ''1'', address_a = 0, address_b = 0\<rparr>]\<rparr>
     = Inr [Fin 100]"
  by (simp add: intensities_A_column_def intensities_B_column_def ad_a_grn_def ad_b_grn_def
      ad_a_red_def ad_b_red_def ad_a_inf_def inf1grn_def inf1red_def inf2_def labels_where_def
      where_min_beads_def loc_assign_def)

section \<open>Properties of the background model\<close>

text \<open>The thresholds the code computes from finite statistics, and the green threshold
  for \<open>z = 1.645\<close>, mean 100 and standard deviation 10.\<close>

lemma detection_thresholds_finite:
  "detection_thresholds (Fin z) \<lparr>neg_means_grn = Fin mg, neg_sds_grn = Fin sg, neg_means_red = Fin mr, neg_sds_red = Fin sr\<rparr>
     = \<lparr>threshold_inf1grn = Fin (2 * mg + z * sqrt 2 * sg),
        threshold_inf1red = Fin (2 * mr + z * sqrt 2 * sr),
        threshold_inf2 = Fin ((mg + mr) / 2
           + z * sqrt ((sqrt (((sg - (sg + sr) / 2)\<^sup>2 + (sr - (sg + sr) / 2)\<^sup>2) / 2))\<^sup>2))\<rparr>"
  using sum_squares_ge_zero [of "sg - (sg + sr) / 2" "sr - (sg + sr) / 2"]
  by (simp add: detection_thresholds_def np_mean2_def np_std2_def fl_sub_def Let_def power2_eq_square not_less)

lemma threshold_scenario_bounds:
  "(2232 / 10 :: real) < 200 + 1645 / 1000 * sqrt 2 * 10
   \<and> 200 + 1645 / 1000 * sqrt 2 * 10 < (2233 / 10 :: real)"
proof -
  have lo: "(1414 / 1000 :: real) < sqrt 2"
    by (rule real_less_rsqrt) (simp add: power2_eq_square)
  have hi: "sqrt 2 < (1415 / 1000 :: real)"
    by (rule real_less_lsqrt) (simp_all add: power2_eq_square)
  show ?thesis using lo hi by simp
qed

lemma threshold_inf1grn_scenario:
  "threshold_inf1grn (detection_thresholds (Fin (1645 / 1000))
       \<lparr>neg_means_grn = Fin 100, neg_sds_grn = Fin 10, neg_means_red = m_red, neg_sds_red = sd_red\<rparr>)
     = Fin (200 + 1645 / 1000 * sqrt 2 * 10)"
  by (simp add: detection_thresholds_def Let_def)

text \<open>
  C3 on the code, with \<open>z = 1.645\<close>. (1) One sample whose three negative controls read
  100, 100, 100 in green and 98, 100, 102 in red: the channel means are 100 and 100, the
  channel standard deviations 0 and 2, their pooled value 1. The green threshold is 200
  and the Type-II threshold is \<open>100 + 1.645 * sqrt (1\<^sup>2) = 101.645\<close>, not
  \<open>100 + 1.645 * sqrt (1\<^sup>2 * 2)\<close>. (2) With equal channel standard deviations (10 and 10)
  the Type-II threshold is 100, the mean of the channel means: \<open>z\<close> has no effect on it.
  (3) In the pairing of the CH3 variant, two samples whose negative controls read 100 and
  200: the run leaves one set of thresholds, 400, 400, 200, computed from the second
  sample, where the first sample alone gives 200, 200, 100.
\<close>

theorem thresholds_unpooled_and_shared:
  "(case background_model (Fin (1645 / 1000))
      [(IntL 21, \<lparr>ctype = ''NEGATIVE'', description = ''Negative 1''\<rparr>),
       (IntL 22, \<lparr>ctype = ''NEGATIVE'', description = ''Negative 2''\<rparr>),
       (IntL 23, \<lparr>ctype = ''NEGATIVE'', description = ''Negative 3''\<rparr>)]
      [''s1'']
      [[(IntL 0, \<lparr>sample_id = 21, grn_n = 4, grn_mean = Fin 100, grn_sd = Fin 1,
                   red_n = 4, red_mean = Fin 98, red_sd = Fin 1\<rparr>),
        (IntL 1, \<lparr>sample_id = 22, grn_n = 4, grn_mean = Fin 100, grn_sd = Fin 1,
                   red_n = 4, red_mean = Fin 100, red_sd = Fin 1\<rparr>),
        (IntL 2, \<lparr>sample_id = 23, grn_n = 4, grn_mean = Fin 100, grn_sd = Fin 1,
                   red_n = 4, red_mean = Fin 102, red_sd = Fin 1\<rparr>)]] of
      Inl e \<Rightarrow> None
    | Inr (c_grn, c_red, bg, th) \<Rightarrow> Some (bg, threshold_inf1grn th, threshold_inf2 th))
     = Some (\<lparr>neg_means_grn = Fin 100, neg_sds_grn = Fin 0, neg_means_red = Fin 100, neg_sds_red = Fin 2\<rparr>,
             Fin 200, Fin (100 + 1645 / 1000))
   \<and> (100 + 1645 / 1000 :: real) \<noteq> 100 + 1645 / 1000 * sqrt (1\<^sup>2 * 2)
   \<and> threshold_inf2 (detection_thresholds (Fin (1645 / 1000))
       \<lparr>neg_means_grn = Fin 100, neg_sds_grn = Fin 10, neg_means_red = Fin 100, neg_sds_red = Fin 10\<rparr>)
     = Fin 100
   \<and> background_model (Fin (1645 / 1000))
      [(IntL 21, \<lparr>ctype = ''NEGATIVE'', description = ''Negative 1''\<rparr>),
       (IntL 22, \<lparr>ctype = ''NEGATIVE'', description = ''Negative 2''\<rparr>)]
      [''s1'', ''s2'']
      [[(IntL 0, \<lparr>sample_id = 21, grn_n = 4, grn_mean = Fin 100, grn_sd = Fin 1,
                    red_n = 4, red_mean = Fin 100, red_sd = Fin 1\<rparr>),
        (IntL 1, \<lparr>sample_id = 22, grn_n = 4, grn_mean = Fin 100, grn_sd = Fin 1,
                    red_n = 4, red_mean = Fin 100, red_sd = Fin 1\<rparr>)],
       [(IntL 0, \<lparr>sample_id = 21, grn_n = 4, grn_mean = Fin 200, grn_sd = Fin 1,
                    red_n = 4, red_mean = Fin 200, red_sd = Fin 1\<rparr>),
        (IntL 1, \<lparr>sample_id = 22, grn_n = 4, grn_mean = Fin 200, grn_sd = Fin 1,
                    red_n = 4, red_mean = Fin 200, red_sd = Fin 1\<rparr>)]]
     = Inr ([(''s1'', [Fin 100, Fin 100]), (''s2'', [Fin 200, Fin 200])],
            [(''s1'', [Fin 100, Fin 100]), (''s2'', [Fin 200, Fin 200])],
            \<lparr>neg_means_grn = Fin 200, neg_sds_grn = Fin 0, neg_means_red = Fin 200, neg_sds_red = Fin 0\<rparr>,
            \<lparr>threshold_inf1grn = Fin 400, threshold_inf1red = Fin 400, threshold_inf2 = Fin 200\<rparr>)
   \<and> background_model (Fin (1645 / 1000))
      [(IntL 21, \<lparr>ctype = ''NEGATIVE'', description = ''Negative 1''\<rparr>),
       (IntL 22, \<lparr>ctype = ''NEGATIVE'', description = ''Negative 2''\<rparr>)]
      [''s1'']
      [[(IntL 0, \<lparr>sample_id = 21, grn_n = 4, grn_mean = Fin 100, grn_sd = Fin 1,
                    red_n = 4, red_mean = Fin 100, red_sd = Fin 1\<rparr>),
        (IntL 1, \<lparr>sample_id = 22, grn_n = 4, grn_mean = Fin 100, grn_sd = Fin 1,
                    red_n = 4, red_mean = Fin 100, red_sd = Fin 1\<rparr>)]]
     = Inr ([(''s1'', [Fin 100, Fin 100])], [(''s1'', [Fin 100, Fin 100])],
            \<lparr>neg_means_grn = Fin 100, neg_sds_grn = Fin 0, neg_means_red = Fin 100, neg_sds_red = Fin 0\<rparr>,
            \<lparr>threshold_inf1grn = Fin 200, threshold_inf1red = Fin 200, threshold_inf2 = Fin 100\<rparr>)"
  by (simp add: background_model_def controls_column_def set_index_sample_id_def loc_setitem_def
      neg_stats_def neg_beads_def labels_where_def series_mean_def series_std_def dropna_def fl_sum_def
      detection_thresholds_def np_mean2_def np_std2_def fl_sub_def nan_frame_def)


text \<open>A bead address listed twice in the summary: the assignment of lines 137--139 has two
  values for one row and raises \<^verbatim>\<open>ValueError\<close>.\<close>

lemma controls_column_duplicate_address:
  "controls_column grn_n grn_mean
     [(IntL 0, \<lparr>sample_id = 21, grn_n = 0, grn_mean = Fin 5, grn_sd = Fin 0,
                 red_n = 0, red_mean = Fin 7, red_sd = Fin 0\<rparr>),
      (IntL 1, \<lparr>sample_id = 21, grn_n = 0, grn_mean = Fin 5, grn_sd = Fin 0,
                 red_n = 0, red_mean = Fin 7, red_sd = Fin 0\<rparr>)]
     [(IntL 21, \<lparr>ctype = ''NEGATIVE'', description = ''Negative 1''\<rparr>)]
   = Inl ValueError"
  by (simp add: controls_column_def set_index_sample_id_def loc_setitem_def)









section \<open>Properties of the censoring loops\<close>

lemma censor_loop_unchanged: "censor_loop pf bg th fr cols = Inr fr' \<Longrightarrow> fr' = fr"
  by (induction cols) (auto split: sum.splits)

lemma censor_unchanged: "censor pf bg th fr = Inr fr' \<Longrightarrow> fr' = fr"
  unfolding censor_def by (rule censor_loop_unchanged)



text \<open>
  C2 on the code: one sample, one I-Grn probe with intensity 1, green negative-control
  mean 100 and green threshold 223. The value fails both tests of the censoring stage and
  is still in the matrix after it: the stage never writes to the matrix.
\<close>

theorem censor_keeps_value_below_background:
  "\<not> fl_gt (Fin 1) (Fin 100) \<and> \<not> fl_gt (Fin 1) (Fin 223)
   \<and> censor \<lparr>p_index = [IntL 0], p_unnamed0 = Some [''cg01''],
              p_rows = [\<lparr>ptype = ''I-Grn'', chr = ''1'', address_a = 41, address_b = 42\<rparr>]\<rparr>
        \<lparr>neg_means_grn = Fin 100, neg_sds_grn = Fin 10, neg_means_red = Fin 100, neg_sds_red = Fin 10\<rparr>
        \<lparr>threshold_inf1grn = Fin 223, threshold_inf1red = Fin 223, threshold_inf2 = Fin 100\<rparr>
        [(''s1'', [Fin 1])]
     = Inr [(''s1'', [Fin 1])]"
  by (simp add: censor_def censor_body_def inf1grn_def inf1red_def inf2_def labels_where_def row_sums_def Let_def)

section \<open>Properties of the dye-bias correction\<close>

text \<open>
  C6 on the code. Two samples whose red corrections are 2 and 3 and whose green
  corrections are 2/3 and 3/5; a Type-II probe with \<open>A = 10\<close> and \<open>B = 15\<close> in both. After
  the loop both samples hold \<open>A = 10 * 2 * 3 = 60\<close> and \<open>B = 15 * 2/3 * 3/5 = 6\<close>: every
  sample is multiplied by the corrections of all samples. The I-Grn probe is unchanged.
\<close>

theorem dye_bias_two_samples:
  "dye_bias [(IntL 21, \<lparr>ctype = ''NORM_C'', description = ''Norm_C''\<rparr>)]
      \<lparr>p_index = [IntL 0, IntL 1], p_unnamed0 = Some [''cg01'', ''cg02''],
       p_rows = [\<lparr>ptype = ''II'', chr = ''1'', address_a = 31, address_b = 0\<rparr>,
                 \<lparr>ptype = ''I-Grn'', chr = ''2'', address_a = 41, address_b = 42\<rparr>]\<rparr>
      [(''s1'', [Fin 3]), (''s2'', [Fin 5])]
      [(''s1'', [Fin 1]), (''s2'', [Fin 1])]
      ([(''s1'', [Fin 10, Fin 7]), (''s2'', [Fin 10, Fin 7])],
       [(''s1'', [Fin 15, Fin 8]), (''s2'', [Fin 15, Fin 8])])
     = ([(''s1'', [Fin 60, Fin 7]), (''s2'', [Fin 60, Fin 7])],
        [(''s1'', [Fin 6, Fin 8]), (''s2'', [Fin 6, Fin 8])])
   \<and> corrections_red [(IntL 21, \<lparr>ctype = ''NORM_C'', description = ''Norm_C''\<rparr>)] [Fin 3] [Fin 1] = Fin 2
   \<and> corrections_red [(IntL 21, \<lparr>ctype = ''NORM_C'', description = ''Norm_C''\<rparr>)] [Fin 5] [Fin 1] = Fin 3
   \<and> corrections_grn [(IntL 21, \<lparr>ctype = ''NORM_C'', description = ''Norm_C''\<rparr>)] [Fin 3] [Fin 1] = Fin (2 / 3)
   \<and> corrections_grn [(IntL 21, \<lparr>ctype = ''NORM_C'', description = ''Norm_C''\<rparr>)] [Fin 5] [Fin 1] = Fin (3 / 5)"
  by (simp add: dye_bias_def corrections_red_def corrections_grn_def norm_data_def norm_grn_beads_def
      labels_where_def series_mean_def dropna_def fl_sum_def scale_inf2_def inf2_def)

section \<open>Properties of the run's effect on the probe manifest\<close>





section \<open>Properties of the methylation ratios\<close>

lemma dnam_cell_nonneg:
  assumes "0 \<le> x" and "0 \<le> y" and "0 < x + y"
  shows "dnam_cell (Fin x) (Fin y) = Fin (y / (x + y))"
    and "0 \<le> y / (x + y)" and "y / (x + y) \<le> 1"
  using assms by (simp_all add: dnam_cell_def add_fill0_def fillna0_def)

lemma dnam_cell_isnull:
  assumes "finite_or_missing a" and "finite_or_missing b"
  shows "isnull (dnam_cell a b) \<longleftrightarrow> isnull b \<or> (b = Fin 0 \<and> (isnull a \<or> a = Fin 0))"
proof (cases b)
  case NaN
  then show ?thesis by (cases a) (simp_all add: dnam_cell_def add_fill0_def fillna0_def)
next
  case (Fin y)
  show ?thesis
  proof (cases a)
    case NaN
    with Fin show ?thesis
      by (simp add: dnam_cell_def add_fill0_def fillna0_def inf_of_sign_def)
  next
    case (Fin x)
    with \<open>b = Fin y\<close> show ?thesis
      by (auto simp add: dnam_cell_def add_fill0_def fillna0_def inf_of_sign_def)
  qed (use assms in \<open>simp_all add: finite_or_missing_def\<close>)
qed (use assms in \<open>simp_all add: finite_or_missing_def\<close>)

lemma dnam_column_nth:
  assumes "i < length index" and "length a_col = length index" and "length b_col = length index"
  shows "dnam_column index idx a_col b_col ! i =
           (if index ! i \<in> set idx then NaN else dnam_cell (a_col ! i) (b_col ! i))"
  using assms by (simp add: dnam_column_def)

text \<open>
  C1 (as the code has it). For a probe whose label is not among the SNP labels, the
  beta-value of a sample is \<open>B / (A \<oplus> B)\<close>, where \<open>\<oplus>\<close> takes an operand that is
  missing on one side only as 0. For finite non-negative \<open>A\<close> and \<open>B\<close> that are not both
  zero it is \<open>B / (A + B)\<close> and lies in \<open>[0, 1]\<close>. For finite or missing inputs it is
  missing exactly when \<open>B\<close> is missing, or \<open>B\<close> is zero and \<open>A\<close> is zero or missing: a
  missing \<open>A\<close> alone does not make the ratio missing.
\<close>

theorem dnam_beta_value:
  assumes "i < length index" and "length a_col = length index" and "length b_col = length index"
    and "index ! i \<notin> set idx"
  shows "dnam_column index idx a_col b_col ! i = fl_div (b_col ! i) (add_fill0 (a_col ! i) (b_col ! i))
    \<and> (\<forall>x y. a_col ! i = Fin x \<and> b_col ! i = Fin y \<and> 0 \<le> x \<and> 0 \<le> y \<and> 0 < x + y \<longrightarrow>
          dnam_column index idx a_col b_col ! i = Fin (y / (x + y)) \<and> 0 \<le> y / (x + y) \<and> y / (x + y) \<le> 1)
    \<and> (finite_or_missing (a_col ! i) \<and> finite_or_missing (b_col ! i) \<longrightarrow>
          (isnull (dnam_column index idx a_col b_col ! i) \<longleftrightarrow>
             isnull (b_col ! i) \<or> (b_col ! i = Fin 0 \<and> (isnull (a_col ! i) \<or> a_col ! i = Fin 0))))"
proof -
  have cell: "dnam_column index idx a_col b_col ! i = dnam_cell (a_col ! i) (b_col ! i)"
    using assms by (simp add: dnam_column_nth)
  show ?thesis
    unfolding cell
    using dnam_cell_nonneg dnam_cell_isnull by (simp add: dnam_cell_def)
qed

theorem dnam_beta_value_witness:
  "dnam_column [IntL 0, IntL 1] (snp_idx [''cg01'', ''rs02'']) [Fin 1, Fin 2] [Fin 3, Fin 4] ! 0 = Fin (3 / 4)
   \<and> \<not> isnull (dnam_column [IntL 0, IntL 1] (snp_idx [''cg01'', ''rs02'']) [Fin 1, Fin 2] [Fin 3, Fin 4] ! 0)"
  using dnam_beta_value [of 0 "[IntL 0, IntL 1]" "[Fin 1, Fin 2]" "[Fin 3, Fin 4]" "snp_idx [''cg01'', ''rs02'']"]
  by (simp add: snp_idx_def finite_or_missing_def add_fill0_def fillna0_def)

text \<open>
  C1 as stated fails: probe \<^verbatim>\<open>cg01\<close> is not a SNP, its \<open>A\<close> intensity is missing and its
  \<open>B\<close> intensity is 5, and the beta-value is 1, not missing.
\<close>

theorem dnam_missing_A_counterexample:
  "isnull NaN \<and> dnam_column [IntL 0] (snp_idx [''cg01'']) [NaN] [Fin 5] = [Fin 1]"
  by (simp add: dnam_column_def snp_idx_def dnam_cell_def add_fill0_def fillna0_def)

section \<open>Properties of the chromosome-Y missingness\<close>

text \<open>
  C9. For a sample, \<^verbatim>\<open>missing_chrY\<close> is the number of chromosome-Y probes whose beta-value is
  missing divided by the number of chromosome-Y probes (probe identifiers are distinct and
  the manifest has a chromosome-Y probe); when every chromosome-Y probe's beta-value is
  missing it is 1.
\<close>

theorem missing_chrY_fraction:
  assumes "distinct (p_index pf)" and "length (p_rows pf) = length (p_index pf)"
    and "length col = length (p_index pf)" and "filter (\<lambda>p. chr p = ''Y'') (p_rows pf) \<noteq> []"
  shows "missing_chrY pf col =
           Inr (Fin (real (length (filter (\<lambda>(p, v). chr p = ''Y'' \<and> isnull v) (zip (p_rows pf) col)))
                     / real (length (filter (\<lambda>p. chr p = ''Y'') (p_rows pf)))))
    \<and> ((\<forall>(p, v) \<in> set (zip (p_rows pf) col). chr p = ''Y'' \<longrightarrow> isnull v) \<longrightarrow>
          missing_chrY pf col = Inr (Fin 1))"
proof -
  let ?Y = "\<lambda>p. chr p = ''Y''"
  let ?sel = "map snd (filter (\<lambda>(p, v). ?Y p) (zip (p_rows pf) col))"
  have loc: "loc_rows (p_index pf) col (labels_where ?Y (p_index pf) (p_rows pf)) = Inr ?sel"
    using assms(1-3)
    by (simp add: loc_rows_distinct labels_where_subset lookup_labels_where)
  have len: "length ?sel = length (filter ?Y (p_rows pf))"
    using assms(2,3) by (simp add: length_filter_zip_fst)
  have ne: "?sel \<noteq> []"
    using len assms(4) by (metis length_0_conv)
  have cnt: "length (filter (\<lambda>b. b) (map isnull ?sel))
               = length (filter (\<lambda>(p, v). ?Y p \<and> isnull v) (zip (p_rows pf) col))"
    by (rule count_isnull_selected)
  have "bool_mean (map isnull ?sel)
          = Fin (real (length (filter (\<lambda>b. b) (map isnull ?sel))) / real (length (map isnull ?sel)))"
    using ne by (simp add: bool_mean_def)
  also have "\<dots> = Fin (real (length (filter (\<lambda>(p, v). ?Y p \<and> isnull v) (zip (p_rows pf) col)))
                / real (length (filter ?Y (p_rows pf))))"
    using assms(2,3) by (simp only: cnt length_map length_filter_zip_fst)
  finally have bm: "bool_mean (map isnull ?sel)
      = Fin (real (length (filter (\<lambda>(p, v). ?Y p \<and> isnull v) (zip (p_rows pf) col)))
                / real (length (filter ?Y (p_rows pf))))" .
  have frac: "missing_chrY pf col =
      Inr (Fin (real (length (filter (\<lambda>(p, v). ?Y p \<and> isnull v) (zip (p_rows pf) col)))
                / real (length (filter ?Y (p_rows pf)))))"
    using assms(3) by (simp add: missing_chrY_def loc bm del: map_map)
  have all: "filter (\<lambda>(p, v). ?Y p \<and> isnull v) (zip (p_rows pf) col) = filter (\<lambda>(p, v). ?Y p) (zip (p_rows pf) col)"
    if "\<forall>(p, v) \<in> set (zip (p_rows pf) col). ?Y p \<longrightarrow> isnull v"
    using that by (intro filter_cong) auto
  have pos: "0 < length (filter ?Y (p_rows pf))"
    using assms(4) by simp
  show ?thesis
    using frac all len pos assms(2,3) by (auto simp add: length_filter_zip_fst)
qed

theorem missing_chrY_fraction_witness:
  "missing_chrY \<lparr>p_index = [StrL ''cg1'', StrL ''cg2'', StrL ''cg3''], p_unnamed0 = None,
       p_rows = [\<lparr>ptype = ''II'', chr = ''1'', address_a = 10, address_b = 0\<rparr>,
                 \<lparr>ptype = ''II'', chr = ''Y'', address_a = 11, address_b = 0\<rparr>,
                 \<lparr>ptype = ''I-Grn'', chr = ''Y'', address_a = 12, address_b = 13\<rparr>]\<rparr>
     [Fin (1 / 2), NaN, Fin (1 / 5)] = Inr (Fin (1 / 2))
   \<and> missing_chrY \<lparr>p_index = [StrL ''cg1'', StrL ''cg2'', StrL ''cg3''], p_unnamed0 = None,
       p_rows = [\<lparr>ptype = ''II'', chr = ''1'', address_a = 10, address_b = 0\<rparr>,
                 \<lparr>ptype = ''II'', chr = ''Y'', address_a = 11, address_b = 0\<rparr>,
                 \<lparr>ptype = ''I-Grn'', chr = ''Y'', address_a = 12, address_b = 13\<rparr>]\<rparr>
     [Fin (1 / 2), NaN, NaN] = Inr (Fin 1)"
  using missing_chrY_fraction [of "\<lparr>p_index = [StrL ''cg1'', StrL ''cg2'', StrL ''cg3''], p_unnamed0 = None,
       p_rows = [\<lparr>ptype = ''II'', chr = ''1'', address_a = 10, address_b = 0\<rparr>,
                 \<lparr>ptype = ''II'', chr = ''Y'', address_a = 11, address_b = 0\<rparr>,
                 \<lparr>ptype = ''I-Grn'', chr = ''Y'', address_a = 12, address_b = 13\<rparr>]\<rparr>"
       "[Fin (1 / 2), NaN, Fin (1 / 5)]"]
    missing_chrY_fraction [of "\<lparr>p_index = [StrL ''cg1'', StrL ''cg2'', StrL ''cg3''], p_unnamed0 = None,
       p_rows = [\<lparr>ptype = ''II'', chr = ''1'', address_a = 10, address_b = 0\<rparr>,
                 \<lparr>ptype = ''II'', chr = ''Y'', address_a = 11, address_b = 0\<rparr>,
                 \<lparr>ptype = ''I-Grn'', chr = ''Y'', address_a = 12, address_b = 13\<rparr>]\<rparr>"
       "[Fin (1 / 2), NaN, NaN]"]
  by simp

section \<open>Properties of the return statements\<close>

text \<open>
  C10. With \<^verbatim>\<open>return_intensities\<close> true both variants return the seven outputs (summary,
  betas, SNP thetas, intensities A and B, controls red and green), whatever
  \<^verbatim>\<open>return_snps_r\<close> is; a radius result is returned only with \<^verbatim>\<open>return_intensities\<close> false
  and \<^verbatim>\<open>return_snps_r\<close> true, and never by the DNAm variant.
\<close>

theorem return_intensities_first:
  "(return_intensities \<longrightarrow>
      preprocess_return_CH3 return_intensities return_snps_r r =
        Inr (Seven (r_samples r) (r_cpgs r) (r_snps r) (r_intensities_A r) (r_intensities_B r)
               (r_controls_red r) (r_controls_grn r))
    \<and> preprocess_return_DNAm return_intensities return_snps_r r =
        Inr (Seven (r_samples r) (r_cpgs r) (r_snps r) (r_intensities_A r) (r_intensities_B r)
               (r_controls_red r) (r_controls_grn r)))
   \<and> (preprocess_return_CH3 return_intensities return_snps_r r = Inr (Radius v) \<longrightarrow>
        \<not> return_intensities \<and> return_snps_r)
   \<and> preprocess_return_DNAm return_intensities return_snps_r r \<noteq> Inr (Radius v)"
  by (auto simp add: preprocess_return_CH3_def preprocess_return_DNAm_def split: sum.splits if_splits)

theorem return_intensities_first_witness:
  "preprocess_return_CH3 True True
      \<lparr>r_samples = [], r_cpgs = [], r_snps = [], r_intensities_A = [(''s1'', [Fin 3])],
       r_intensities_B = [(''s1'', [Fin 4])], r_controls_red = [], r_controls_grn = [],
       r_intensities = [(''s1'', [Fin 7])], r_idx = []\<rparr>
     = Inr (Seven [] [] [] [(''s1'', [Fin 3])] [(''s1'', [Fin 4])] [] [])
   \<and> preprocess_return_CH3 False True
      \<lparr>r_samples = [], r_cpgs = [], r_snps = [], r_intensities_A = [(''s1'', [Fin 3])],
       r_intensities_B = [(''s1'', [Fin 4])], r_controls_red = [], r_controls_grn = [],
       r_intensities = [(''s1'', [Fin 7])], r_idx = []\<rparr>
     = Inr (Radius [])
   \<and> \<not> False \<and> True"
  using return_intensities_first [of True True
      "\<lparr>r_samples = [], r_cpgs = [], r_snps = [], r_intensities_A = [(''s1'', [Fin 3])],
       r_intensities_B = [(''s1'', [Fin 4])], r_controls_red = [], r_controls_grn = [],
       r_intensities = [(''s1'', [Fin 7])], r_idx = []\<rparr>" "[]"]
    return_intensities_first [of False True
      "\<lparr>r_samples = [], r_cpgs = [], r_snps = [], r_intensities_A = [(''s1'', [Fin 3])],
       r_intensities_B = [(''s1'', [Fin 4])], r_controls_red = [], r_controls_grn = [],
       r_intensities = [(''s1'', [Fin 7])], r_idx = []\<rparr>" "[]"]
  by (simp add: preprocess_return_CH3_def snps_r_def)

text \<open>
  C8 on the code. One sample \<^verbatim>\<open>s1\<close> and one SNP probe \<^verbatim>\<open>rs1\<close> with \<open>A = 3\<close>, \<open>B = 4\<close>, so
  \<open>sqrt (A\<^sup>2 + B\<^sup>2) = 5\<close>. With \<^verbatim>\<open>return_snps_r\<close> set and \<^verbatim>\<open>return_intensities\<close> unset the CH3
  variant raises \<^verbatim>\<open>KeyError\<close> when the probe is on chromosome X (it looks the probe up
  among the sample columns) and returns an empty result when it is not; the DNAm variant
  raises \<^verbatim>\<open>NameError\<close>.
\<close>

theorem return_snps_r_not_radius:
  "preprocess_return_CH3 False True
      \<lparr>r_samples = [], r_cpgs = [], r_snps = [], r_intensities_A = [(''s1'', [Fin 3])],
       r_intensities_B = [(''s1'', [Fin 4])], r_controls_red = [], r_controls_grn = [],
       r_intensities = intensities_add [(''s1'', [Fin 3])] [(''s1'', [Fin 4])],
       r_idx = idx_at_return
                 \<lparr>p_index = [StrL ''rs1''], p_unnamed0 = None,
                  p_rows = [\<lparr>ptype = ''I-Grn'', chr = ''X'', address_a = 41, address_b = 42\<rparr>]\<rparr>
                 [''s1'']\<rparr>
     = Inl KeyError
   \<and> preprocess_return_CH3 False True
      \<lparr>r_samples = [], r_cpgs = [], r_snps = [], r_intensities_A = [(''s1'', [Fin 3])],
       r_intensities_B = [(''s1'', [Fin 4])], r_controls_red = [], r_controls_grn = [],
       r_intensities = intensities_add [(''s1'', [Fin 3])] [(''s1'', [Fin 4])],
       r_idx = idx_at_return
                 \<lparr>p_index = [StrL ''rs1''], p_unnamed0 = None,
                  p_rows = [\<lparr>ptype = ''I-Grn'', chr = ''1'', address_a = 41, address_b = 42\<rparr>]\<rparr>
                 [''s1'']\<rparr>
     = Inr (Radius [])
   \<and> preprocess_return_DNAm False True
      \<lparr>r_samples = [], r_cpgs = [], r_snps = [], r_intensities_A = [(''s1'', [Fin 3])],
       r_intensities_B = [(''s1'', [Fin 4])], r_controls_red = [], r_controls_grn = [],
       r_intensities = intensities_add [(''s1'', [Fin 3])] [(''s1'', [Fin 4])],
       r_idx = idx_at_return
                 \<lparr>p_index = [StrL ''rs1''], p_unnamed0 = None,
                  p_rows = [\<lparr>ptype = ''I-Grn'', chr = ''X'', address_a = 41, address_b = 42\<rparr>]\<rparr>
                 [''s1'']\<rparr>
     = Inl NameError"
  by (simp add: preprocess_return_CH3_def preprocess_return_DNAm_def snps_r_def idx_at_return_def
      labels_where_def intensities_add_def)

end
